theory Spec2Isabelle
  imports Main "HOL-Library.Multiset" "HOL-Library.List_Lexorder"
begin

section \<open>Strings\<close>

text \<open>
  A Go string is read by \<^verbatim>\<open>strings.ToLower\<close>, \<^verbatim>\<open>regexp\<close> and
  \<^verbatim>\<open>strings.ReplaceAll\<close> as a sequence of Unicode code points (runes); a byte that is
  not valid UTF-8 is read as the rune U+FFFD. A string is therefore modelled as the list
  of its runes, a rune being its code point.
\<close>

type_synonym rune = nat
type_synonym gostring = "rune list"

definition runes :: "string \<Rightarrow> gostring" where
  "runes s = map of_char s"

subsection \<open>strings.ToLower\<close>

text \<open>
  \<^verbatim>\<open>unicode.ToLower\<close>: an ASCII rune is shifted by \<^verbatim>\<open>'a' - 'A'\<close> when it lies in
  \<^verbatim>\<open>'A'..'Z'\<close> and is returned as it is otherwise; any other rune is looked up in the case
  tables of the Go standard library. These tables are not part of the repository: the
  lookup is the parameter \<open>tbl\<close>.
\<close>

definition unicode_ToLower :: "(rune \<Rightarrow> rune) \<Rightarrow> rune \<Rightarrow> rune" where
  "unicode_ToLower tbl r =
     (if r \<le> 127 then (if 65 \<le> r \<and> r \<le> 90 then r + 32 else r) else tbl r)"

definition ToLower :: "(rune \<Rightarrow> rune) \<Rightarrow> gostring \<Rightarrow> gostring" where
  "ToLower tbl s = map (unicode_ToLower tbl) s"

subsection \<open>regexp.ReplaceAllString for a character class under +\<close>

text \<open>
  The class \<^verbatim>\<open>[^a-z0-9 ]\<close>: every rune that is not a lower-case ASCII letter, an ASCII
  digit or the space.
\<close>

definition reg_class :: "rune \<Rightarrow> bool" where
  "reg_class r \<longleftrightarrow> \<not> ((97 \<le> r \<and> r \<le> 122) \<or> (48 \<le> r \<and> r \<le> 57) \<or> r = 32)"

text \<open>
  \<^verbatim>\<open>regexp.MustCompile("[^...]+").ReplaceAllString(s, repl)\<close>: scanning from the left,
  every maximal run of runes of the class is one match and is replaced by \<open>repl\<close>
  (which holds no \<^verbatim>\<open>$\<close> here); the runes between the matches are copied.
\<close>

function ReplaceAllString :: "(rune \<Rightarrow> bool) \<Rightarrow> gostring \<Rightarrow> gostring \<Rightarrow> gostring" where
  "ReplaceAllString cls [] repl = []"
| "ReplaceAllString cls (c # cs) repl =
     (if cls c then repl @ ReplaceAllString cls (dropWhile cls cs) repl
      else c # ReplaceAllString cls cs repl)"
  by pat_completeness auto
termination
  by (relation "measure (\<lambda>(cls, s, repl). length s)")
     (auto simp: length_dropWhile_le less_Suc_eq_le)

subsection \<open>strings.ReplaceAll\<close>

text \<open>
  \<^verbatim>\<open>strings.ReplaceAll(s, old, new)\<close> replaces the non-overlapping occurrences of
  \<open>old\<close> from the left. An empty \<open>old\<close> matches before the first rune and after every
  rune.
\<close>

function ReplaceAll_scan :: "gostring \<Rightarrow> gostring \<Rightarrow> gostring \<Rightarrow> gostring" where
  "ReplaceAll_scan [] old new = []"
| "ReplaceAll_scan (c # cs) old new =
     (if old \<noteq> [] \<and> take (length old) (c # cs) = old
      then new @ ReplaceAll_scan (drop (length old) (c # cs)) old new
      else c # ReplaceAll_scan cs old new)"
  by pat_completeness auto
termination
  by (relation "measure (\<lambda>(s, old, new). length s)") auto

definition ReplaceAll :: "gostring \<Rightarrow> gostring \<Rightarrow> gostring \<Rightarrow> gostring" where
  "ReplaceAll s old new =
     (if old = [] then new @ concat (map (\<lambda>c. c # new) s) else ReplaceAll_scan s old new)"

section \<open>Slug generation\<close>

text \<open>
  The slug that \<^verbatim>\<open>handlePublish\<close> generates from the title when the request carries
  none: lower-case, delete what is not a-z, 0-9 or space, replace spaces by hyphens.
\<close>

definition SlugNormalizer :: "(rune \<Rightarrow> rune) \<Rightarrow> gostring \<Rightarrow> gostring" where
  "SlugNormalizer tbl title =
     (let s = ToLower tbl title;
          s = ReplaceAllString reg_class s []
      in ReplaceAll s (runes '' '') (runes ''-''))"

text \<open>The older variant of \<^verbatim>\<open>handlePublish\<close>: hyphenate, then lower-case.\<close>

definition SlugNormalizer_old :: "(rune \<Rightarrow> rune) \<Rightarrow> gostring \<Rightarrow> gostring" where
  "SlugNormalizer_old tbl title = ToLower tbl (ReplaceAll title (runes '' '') (runes ''-''))"

text \<open>
  The policy in the words of the specification, for comparison: lower-case, strip what is
  outside \<^verbatim>\<open>[a-z0-9 ]\<close>, then replace every maximal run of spaces by one hyphen.
\<close>

definition SlugNormalizer_spec :: "(rune \<Rightarrow> rune) \<Rightarrow> gostring \<Rightarrow> gostring" where
  "SlugNormalizer_spec tbl title =
     (let s = ToLower tbl title;
          s = filter (\<lambda>r. \<not> reg_class r) s
      in ReplaceAllString (\<lambda>r. r = 32) s (runes ''-''))"

text \<open>A string in which no two spaces are adjacent.\<close>

fun single_spaces :: "gostring \<Rightarrow> bool" where
  "single_spaces (a # b # cs) \<longleftrightarrow> \<not> (a = 32 \<and> b = 32) \<and> single_spaces (b # cs)"
| "single_spaces cs \<longleftrightarrow> True"

section \<open>The posts table\<close>

text \<open>
  A value of \<^verbatim>\<open>time.Time\<close> is abstracted to an integer, its instant in seconds since
  the epoch.
\<close>

type_synonym time = int

record Post =
  Slug :: gostring
  Title :: gostring
  Description :: gostring
  Content :: gostring
  PublishedAt :: time

text \<open>
  The table \<^verbatim>\<open>posts\<close> is the list of its rows in insertion order, a row being the
  \<^verbatim>\<open>Post\<close> whose fields were bound to the statement that wrote it. The declaration
  \<^verbatim>\<open>slug TEXT PRIMARY KEY\<close> keeps the slugs of the rows distinct; the statements below
  are defined on every list and preserve that.
\<close>

type_synonym posts = "Post list"

definition primary_key :: "posts \<Rightarrow> bool" where
  "primary_key rows \<longleftrightarrow> distinct (map Slug rows)"

text \<open>
  \<^verbatim>\<open>INSERT INTO posts (...) VALUES (?, ?, ?, ?, ?) ON CONFLICT(slug) DO UPDATE SET
  title=excluded.title, content=excluded.content, description=excluded.description\<close>
\<close>

definition sql_upsert :: "Post \<Rightarrow> posts \<Rightarrow> posts" where
  "sql_upsert p rows =
     (if Slug p \<in> set (map Slug rows)
      then map (\<lambda>q. if Slug q = Slug p
                     then q\<lparr>Title := Title p, Content := Content p, Description := Description p\<rparr>
                     else q) rows
      else rows @ [p])"

text \<open>
  \<^verbatim>\<open>UPDATE posts SET title = ?, description = ?, content = ? WHERE slug = ?\<close>,
  with the number of rows affected.
\<close>

definition sql_update :: "gostring \<Rightarrow> gostring \<Rightarrow> gostring \<Rightarrow> gostring \<Rightarrow> posts \<Rightarrow> posts \<times> nat" where
  "sql_update title description content slug rows =
     (map (\<lambda>q. if Slug q = slug
                then q\<lparr>Title := title, Description := description, Content := content\<rparr>
                else q) rows,
      length (filter (\<lambda>q. Slug q = slug) rows))"

text \<open>\<^verbatim>\<open>DELETE FROM posts WHERE slug = ?\<close>, with the number of rows affected.\<close>

definition sql_delete :: "gostring \<Rightarrow> posts \<Rightarrow> posts \<times> nat" where
  "sql_delete slug rows =
     (filter (\<lambda>q. Slug q \<noteq> slug) rows, length (filter (\<lambda>q. Slug q = slug) rows))"

text \<open>
  The driver behind \<^verbatim>\<open>database/sql\<close> (\<^verbatim>\<open>modernc.org/sqlite\<close>) is not part of the
  repository. What the reading handlers depend on is taken as a parameter: the text the
  driver writes into the \<^verbatim>\<open>DATETIME\<close> column for a bound \<^verbatim>\<open>time.Time\<close>, and the
  \<^verbatim>\<open>time.Time\<close> it gives back for the text of such a column (\<open>None\<close> when it gives
  back the text itself, which \<^verbatim>\<open>Scan\<close> cannot store into a \<^verbatim>\<open>time.Time\<close>).
\<close>

record driver =
  formatTime :: "time \<Rightarrow> gostring"
  parseTime :: "gostring \<Rightarrow> time option"

text \<open>The text in the column \<^verbatim>\<open>published_at\<close> of a row.\<close>

definition published_at :: "driver \<Rightarrow> Post \<Rightarrow> gostring" where
  "published_at drv q = formatTime drv (PublishedAt q)"

text \<open>
  \<^verbatim>\<open>SELECT slug, title, description, published_at FROM posts ORDER BY published_at DESC\<close>:
  the rows in descending order of the text of the column, which SQLite compares byte by
  byte, a proper prefix being smaller. Rows of equal text come in table order.
\<close>

definition sql_select_list :: "driver \<Rightarrow> posts \<Rightarrow> posts" where
  "sql_select_list drv rows = rev (sort_key (published_at drv) (rev rows))"

text \<open>
  \<^verbatim>\<open>rows.Scan(&p.Slug, &p.Title, &p.Description, &p.PublishedAt)\<close> into a zero
  \<^verbatim>\<open>Post\<close>: \<^verbatim>\<open>Content\<close> keeps the zero value; \<open>None\<close> is the error of \<^verbatim>\<open>Scan\<close>.
\<close>

definition Scan_summary :: "driver \<Rightarrow> Post \<Rightarrow> Post option" where
  "Scan_summary drv q =
     (case parseTime drv (published_at drv q) of
        None \<Rightarrow> None
      | Some t \<Rightarrow> Some \<lparr>Slug = Slug q, Title = Title q, Description = Description q,
                        Content = [], PublishedAt = t\<rparr>)"

text \<open>
  The loop \<^verbatim>\<open>for rows.Next()\<close> of \<^verbatim>\<open>handleListPosts\<close>: a row that does not scan is
  skipped (\<^verbatim>\<open>continue\<close>), the others are appended in order.
\<close>

fun scan_rows :: "driver \<Rightarrow> posts \<Rightarrow> Post list" where
  "scan_rows drv [] = []"
| "scan_rows drv (q # qs) =
     (case Scan_summary drv q of
        None \<Rightarrow> scan_rows drv qs
      | Some p \<Rightarrow> p # scan_rows drv qs)"

text \<open>
  \<^verbatim>\<open>db.QueryRow("SELECT ... FROM posts WHERE slug = ?", slug).Scan(...)\<close>: the error of
  the driver when the query fails, \<^verbatim>\<open>sql.ErrNoRows\<close> when no row matches, the error
  of \<^verbatim>\<open>Scan\<close> when the first matching row does not scan, that row otherwise.
\<close>

datatype db_error = ErrNoRows | DriverError gostring | ScanError

definition sql_select_slug ::
  "driver \<Rightarrow> gostring option \<Rightarrow> gostring \<Rightarrow> posts \<Rightarrow> db_error + Post" where
  "sql_select_slug drv dberr slug rows =
     (case dberr of
        Some e \<Rightarrow> Inl (DriverError e)
      | None \<Rightarrow> (case find (\<lambda>q. Slug q = slug) rows of
                   None \<Rightarrow> Inl ErrNoRows
                 | Some q \<Rightarrow> (case parseTime drv (published_at drv q) of
                               None \<Rightarrow> Inl ScanError
                             | Some t \<Rightarrow> Inr (q\<lparr>PublishedAt := t\<rparr>))))"

text \<open>
  A driver for closed examples: four values of \<^verbatim>\<open>time.Now()\<close> in the zone
  \<^verbatim>\<open>America/Los_Angeles\<close> on 2024-11-03, the first at 01:58 before the end of daylight
  saving time, the others at 01:01, 01:30 and 01:45 after it, each with the text of
  \<^verbatim>\<open>time.Time.String\<close>, which the driver writes, and read back from that text.
\<close>

definition formatTime_LA :: "time \<Rightarrow> gostring" where
  "formatTime_LA t =
     (if t = 1730624280 then runes ''2024-11-03 01:58:00 -0700 PDT m=+60.000000000''
      else if t = 1730624460 then runes ''2024-11-03 01:01:00 -0800 PST m=+240.000000000''
      else if t = 1730626200 then runes ''2024-11-03 01:30:00 -0800 PST m=+1980.000000000''
      else if t = 1730627100 then runes ''2024-11-03 01:45:00 -0800 PST m=+2880.000000000''
      else [])"

definition parseTime_LA :: "gostring \<Rightarrow> time option" where
  "parseTime_LA s =
     (if s = runes ''2024-11-03 01:58:00 -0700 PDT m=+60.000000000'' then Some 1730624280
      else if s = runes ''2024-11-03 01:01:00 -0800 PST m=+240.000000000'' then Some 1730624460
      else if s = runes ''2024-11-03 01:30:00 -0800 PST m=+1980.000000000'' then Some 1730626200
      else if s = runes ''2024-11-03 01:45:00 -0800 PST m=+2880.000000000'' then Some 1730627100
      else None)"

definition driver_LA :: driver where
  "driver_LA = \<lparr>formatTime = formatTime_LA, parseTime = parseTime_LA\<rparr>"

section \<open>Requests and responses\<close>

text \<open>
  What a handler reads of a request: the value of the header \<^verbatim>\<open>X-MALT-KEY\<close> if it is
  sent, the path value \<^verbatim>\<open>slug\<close>, and the outcome of decoding the body as a
  \<^verbatim>\<open>Post\<close> (\<open>None\<close> when \<^verbatim>\<open>Decode\<close> returns an error).
\<close>

record request =
  X_MALT_KEY :: "gostring option"
  PathSlug :: gostring
  Body :: "Post option"

text \<open>
  \<^verbatim>\<open>encoding/json\<close> writes a \<^verbatim>\<open>Post\<close> as an object of five keys, named by the tags
  of the struct and none of them \<^verbatim>\<open>omitempty\<close>: four strings and a time.
\<close>

datatype json = JString gostring | JTime time

type_synonym json_object = "(string \<times> json) list"

definition json_Post :: "Post \<Rightarrow> json_object" where
  "json_Post p =
     [(''slug'', JString (Slug p)),
      (''title'', JString (Title p)),
      (''description'', JString (Description p)),
      (''content'', JString (Content p)),
      (''published_at'', JTime (PublishedAt p))]"

text \<open>
  \<^verbatim>\<open>http.Error\<close> writes a plain text; \<^verbatim>\<open>jsonResponse\<close> encodes a slice of posts
  (the empty list standing for the nil slice), a post, or a \<^verbatim>\<open>map[string]string\<close>
  (given by its key-value pairs), with status 200.
\<close>

datatype payload =
    Text gostring
  | JsonPosts "json_object list"
  | JsonPost json_object
  | JsonMap "(string \<times> gostring) list"

record response =
  status :: nat
  body :: payload

definition http_Error :: "gostring \<Rightarrow> nat \<Rightarrow> response" where
  "http_Error msg code = \<lparr>status = code, body = Text msg\<rparr>"

definition jsonResponse :: "payload \<Rightarrow> response" where
  "jsonResponse data = \<lparr>status = 200, body = data\<rparr>"

text \<open>\<^verbatim>\<open>r.Header.Get\<close> and \<^verbatim>\<open>os.Getenv\<close> give the empty string for what is absent.\<close>

definition Header_Get :: "gostring option \<Rightarrow> gostring" where
  "Header_Get h = (case h of None \<Rightarrow> [] | Some v \<Rightarrow> v)"

definition Getenv :: "gostring option \<Rightarrow> gostring" where
  "Getenv v = (case v of None \<Rightarrow> [] | Some s \<Rightarrow> s)"

section \<open>Handlers\<close>

text \<open>
  A handler takes what it reads from outside the request: the environment variable
  \<^verbatim>\<open>MALT_SECRET\<close> (\<open>secret\<close>, \<open>None\<close> when unset), the clock (\<open>now\<close>), the
  error text of the driver if its one database call fails (\<open>dberr\<close>, \<open>None\<close> when the
  call succeeds) and, when it reads rows, the driver (\<open>drv\<close>). It returns the response
  and, when it writes, the table. A statement that fails changes no row.
\<close>

definition handleListPosts :: "driver \<Rightarrow> gostring option \<Rightarrow> posts \<Rightarrow> response" where
  "handleListPosts drv dberr rows =
     (case dberr of
        Some e \<Rightarrow> http_Error (runes ''Database error'') 500
      | None \<Rightarrow>
          (let posts = scan_rows drv (sql_select_list drv rows)
           in jsonResponse (JsonPosts (map json_Post posts))))"

definition handleGetPost :: "driver \<Rightarrow> gostring option \<Rightarrow> request \<Rightarrow> posts \<Rightarrow> response" where
  "handleGetPost drv dberr r rows =
     (case sql_select_slug drv dberr (PathSlug r) rows of
        Inl err \<Rightarrow> http_Error (runes ''Post not found'') 404
      | Inr p \<Rightarrow> jsonResponse (JsonPost (json_Post p)))"

text \<open>The row that \<^verbatim>\<open>handlePublish\<close> binds to its statement.\<close>

definition publish_row :: "(rune \<Rightarrow> rune) \<Rightarrow> time \<Rightarrow> Post \<Rightarrow> Post" where
  "publish_row tbl now p =
     (let p = (if Slug p = [] then p\<lparr>Slug := SlugNormalizer tbl (Title p)\<rparr> else p)
      in p\<lparr>PublishedAt := now\<rparr>)"

definition handlePublish ::
  "(rune \<Rightarrow> rune) \<Rightarrow> gostring option \<Rightarrow> time \<Rightarrow> gostring option \<Rightarrow> request \<Rightarrow> posts
     \<Rightarrow> response \<times> posts" where
  "handlePublish tbl secret now dberr r rows =
     (if Header_Get (X_MALT_KEY r) \<noteq> Getenv secret
      then (http_Error (runes ''Go away'') 401, rows)
      else case Body r of
        None \<Rightarrow> (http_Error (runes ''Bad JSON'') 400, rows)
      | Some p0 \<Rightarrow>
          (let p = publish_row tbl now p0 in
           case dberr of
             Some e \<Rightarrow> (http_Error (runes ''Failed to save: '' @ e) 500, rows)
           | None \<Rightarrow>
               (jsonResponse (JsonMap [(''status'', runes ''published''),
                                       (''link'', runes ''/post/'' @ Slug p)]),
                sql_upsert p rows)))"

definition handleDeletePost ::
  "gostring option \<Rightarrow> gostring option \<Rightarrow> request \<Rightarrow> posts \<Rightarrow> response \<times> posts" where
  "handleDeletePost secret dberr r rows =
     (if Header_Get (X_MALT_KEY r) \<noteq> Getenv secret
      then (http_Error (runes ''Go away'') 401, rows)
      else let slug = PathSlug r in
        case dberr of
          Some e \<Rightarrow> (http_Error (runes ''Database error: '' @ e) 500, rows)
        | None \<Rightarrow>
            (let (rows', rowsAffected) = sql_delete slug rows in
             if rowsAffected = 0
             then (http_Error (runes ''Post not found'') 404, rows')
             else (jsonResponse (JsonMap [(''status'', runes ''deleted''), (''slug'', slug)]),
                   rows')))"

definition handleUpdatePost ::
  "gostring option \<Rightarrow> gostring option \<Rightarrow> request \<Rightarrow> posts \<Rightarrow> response \<times> posts" where
  "handleUpdatePost secret dberr r rows =
     (if Header_Get (X_MALT_KEY r) \<noteq> Getenv secret
      then (http_Error (runes ''Go away'') 401, rows)
      else let slug = PathSlug r in
        case Body r of
          None \<Rightarrow> (http_Error (runes ''Bad JSON'') 400, rows)
        | Some p \<Rightarrow>
            (case dberr of
               Some e \<Rightarrow> (http_Error (runes ''Database error: '' @ e) 500, rows)
             | None \<Rightarrow>
                 (let (rows', rowsAffected) =
                        sql_update (Title p) (Description p) (Content p) slug rows in
                  if rowsAffected = 0
                  then (http_Error (runes ''Post not found'') 404, rows')
                  else (jsonResponse (JsonMap [(''status'', runes ''updated''), (''slug'', slug)]),
                        rows'))))"

section \<open>Properties of slug generation\<close>

lemma runes_space: "runes '' '' = [32]"
  by (simp add: runes_def)

lemma runes_hyphen: "runes ''-'' = [45]"
  by (simp add: runes_def)

lemma filter_dropWhile_class:
  "filter (\<lambda>r. \<not> cls r) (dropWhile cls cs) = filter (\<lambda>r. \<not> cls r) cs"
  by (induction cs) auto

lemma ReplaceAllString_delete: "ReplaceAllString cls s [] = filter (\<lambda>r. \<not> cls r) s"
  by (induction cls s "[] :: gostring" rule: ReplaceAllString.induct)
     (simp_all add: filter_dropWhile_class)

lemma ReplaceAll_scan_rune:
  "ReplaceAll_scan s [a] [b] = map (\<lambda>r. if r = a then b else r) s"
  by (induction s) auto

lemma ReplaceAll_rune: "ReplaceAll s [a] [b] = map (\<lambda>r. if r = a then b else r) s"
  by (simp add: ReplaceAll_def ReplaceAll_scan_rune)

lemma SlugNormalizer_runes:
  "SlugNormalizer tbl title =
     map (\<lambda>r. if r = 32 then 45 else r) (filter (\<lambda>r. \<not> reg_class r) (ToLower tbl title))"
  by (simp add: SlugNormalizer_def ReplaceAllString_delete ReplaceAll_rune
      runes_space runes_hyphen)

lemma SlugNormalizer_old_runes:
  "SlugNormalizer_old tbl title = ToLower tbl (map (\<lambda>r. if r = 32 then 45 else r) title)"
  by (simp add: SlugNormalizer_old_def ReplaceAll_rune runes_space runes_hyphen)

lemma single_spaces_tl: "single_spaces (c # cs) \<Longrightarrow> single_spaces cs"
  by (cases cs) simp_all

lemma single_spaces_dropWhile:
  "single_spaces (32 # cs) \<Longrightarrow> dropWhile (\<lambda>r. r = 32) cs = cs"
  by (cases cs) simp_all

lemma collapse_single_spaces:
  "single_spaces s \<Longrightarrow>
     ReplaceAllString (\<lambda>r. r = 32) s [45] = map (\<lambda>r. if r = 32 then 45 else r) s"
proof (induction s)
  case Nil
  show ?case by simp
next
  case (Cons c cs)
  from Cons.prems have "single_spaces cs" by (rule single_spaces_tl)
  with Cons.IH have IH: "ReplaceAllString (\<lambda>r. r = 32) cs [45] = map (\<lambda>r. if r = 32 then 45 else r) cs" .
  show ?case
  proof (cases "c = 32")
    case True
    with Cons.prems have "dropWhile (\<lambda>r. r = 32) cs = cs"
      by (simp add: single_spaces_dropWhile)
    with True IH show ?thesis by simp
  next
    case False
    with IH show ?thesis by simp
  qed
qed

lemma slug_rune_cases:
  "r \<in> set (SlugNormalizer tbl title) \<Longrightarrow> r = 45 \<or> (\<not> reg_class r \<and> r \<noteq> 32)"
  by (auto simp: SlugNormalizer_runes)

lemma renormalize_rune:
  assumes "r = 45 \<or> (\<not> reg_class r \<and> r \<noteq> 32)"
  shows "unicode_ToLower tbl r = r" and "reg_class r \<longleftrightarrow> r = 45" and "r \<noteq> 32"
  using assms by (auto simp: unicode_ToLower_def reg_class_def)

lemma renormalize_list:
  assumes "\<forall>r \<in> set s. r = 45 \<or> (\<not> reg_class r \<and> r \<noteq> 32)"
  shows "SlugNormalizer tbl s = filter (\<lambda>r. r \<noteq> 45) s"
  using assms
proof (induction s)
  case Nil
  show ?case by (simp add: SlugNormalizer_runes ToLower_def)
next
  case (Cons a s)
  then have a: "a = 45 \<or> (\<not> reg_class a \<and> a \<noteq> 32)"
    and IH: "SlugNormalizer tbl s = filter (\<lambda>r. r \<noteq> 45) s"
    by simp_all
  from renormalize_rune[OF a] IH show ?case
    by (auto simp: SlugNormalizer_runes ToLower_def)
qed

lemma SlugNormalizer_twice:
  "SlugNormalizer tbl (SlugNormalizer tbl title) =
     filter (\<lambda>r. r \<noteq> 45) (SlugNormalizer tbl title)"
  by (rule renormalize_list) (blast dest: slug_rune_cases)

lemma hyphen_in_slug:
  "45 \<in> set (SlugNormalizer tbl title) \<longleftrightarrow> 32 \<in> set (ToLower tbl title)"
  by (auto simp: SlugNormalizer_runes reg_class_def image_iff)

lemma variants_agree_on_plain_titles:
  assumes "\<forall>r \<in> set title. (97 \<le> r \<and> r \<le> 122) \<or> (48 \<le> r \<and> r \<le> 57) \<or> r = 32"
  shows "SlugNormalizer tbl title = SlugNormalizer_old tbl title"
  using assms
  by (induction title)
     (auto simp: SlugNormalizer_runes SlugNormalizer_old_runes ToLower_def
       unicode_ToLower_def reg_class_def)

lemma slug_example:
  "SlugNormalizer tbl (runes ''Hello, World! 2024'') = runes ''hello-world-2024''"
  by (simp add: SlugNormalizer_runes ToLower_def unicode_ToLower_def reg_class_def runes_def)


section \<open>Properties of the statements\<close>

lemma sql_upsert_present:
  "Slug p \<in> set (map Slug rows) \<Longrightarrow>
     sql_upsert p rows =
       map (\<lambda>q. if Slug q = Slug p
                 then q\<lparr>Title := Title p, Content := Content p, Description := Description p\<rparr>
                 else q) rows"
  by (simp add: sql_upsert_def)

lemma sql_upsert_absent: "Slug p \<notin> set (map Slug rows) \<Longrightarrow> sql_upsert p rows = rows @ [p]"
  by (simp add: sql_upsert_def)

lemma sql_upsert_present_Slug:
  "Slug p \<in> set (map Slug rows) \<Longrightarrow> map Slug (sql_upsert p rows) = map Slug rows"
  by (simp add: sql_upsert_present)


lemma sql_upsert_present_fields:
  assumes "Slug p \<in> set (map Slug rows)" and "q \<in> set (sql_upsert p rows)" and "Slug q = Slug p"
  shows "Title q = Title p \<and> Description q = Description p \<and> Content q = Content p"
  using assms by (auto simp: sql_upsert_present)

lemma sql_upsert_present_others:
  assumes "Slug p \<in> set (map Slug rows)" and "i < length rows" and "Slug (rows ! i) \<noteq> Slug p"
  shows "sql_upsert p rows ! i = rows ! i"
  using assms by (simp add: sql_upsert_present)

lemma sql_update_rows:
  "fst (sql_update t d c slug rows) =
     map (\<lambda>q. if Slug q = slug then q\<lparr>Title := t, Description := d, Content := c\<rparr> else q) rows"
  by (simp add: sql_update_def)

lemma rows_affected_zero:
  "length (filter (\<lambda>q. Slug q = slug) rows) = 0 \<longleftrightarrow> slug \<notin> set (map Slug rows)"
  by (auto simp: filter_empty_conv)

lemma sql_update_absent:
  "slug \<notin> set (map Slug rows) \<Longrightarrow> sql_update t d c slug rows = (rows, 0)"
proof -
  assume absent: "slug \<notin> set (map Slug rows)"
  have "map (\<lambda>q. if Slug q = slug then q\<lparr>Title := t, Description := d, Content := c\<rparr> else q) rows
          = rows"
    using absent by (induction rows) auto
  moreover have "filter (\<lambda>q. Slug q = slug) rows = []"
    using absent by (auto simp: filter_empty_conv)
  ultimately show ?thesis
    by (simp add: sql_update_def)
qed

lemma sql_delete_absent:
  "slug \<notin> set (map Slug rows) \<Longrightarrow> sql_delete slug rows = (rows, 0)"
  by (auto simp: sql_delete_def filter_empty_conv filter_id_conv)

lemma primary_key_upsert: "primary_key rows \<Longrightarrow> primary_key (sql_upsert p rows)"
  by (cases "Slug p \<in> set (map Slug rows)")
     (simp_all add: primary_key_def sql_upsert_present_Slug sql_upsert_absent)

lemma primary_key_update: "primary_key rows \<Longrightarrow> primary_key (fst (sql_update t d c slug rows))"
proof -
  have "map Slug (fst (sql_update t d c slug rows)) = map Slug rows"
    by (simp add: sql_update_rows)
  then show "primary_key rows \<Longrightarrow> ?thesis"
    by (simp add: primary_key_def)
qed

lemma primary_key_delete: "primary_key rows \<Longrightarrow> primary_key (fst (sql_delete slug rows))"
  by (simp add: primary_key_def sql_delete_def distinct_map_filter)

section \<open>Properties of the list query\<close>






section \<open>Properties of the handlers\<close>



lemma handlePublish_unauthorized:
  "Header_Get (X_MALT_KEY r) \<noteq> Getenv secret \<Longrightarrow>
     handlePublish tbl secret now dberr r rows = (http_Error (runes ''Go away'') 401, rows)"
  by (simp add: handlePublish_def)

lemma handleDeletePost_unauthorized:
  "Header_Get (X_MALT_KEY r) \<noteq> Getenv secret \<Longrightarrow>
     handleDeletePost secret dberr r rows = (http_Error (runes ''Go away'') 401, rows)"
  by (simp add: handleDeletePost_def)

lemma handleUpdatePost_unauthorized:
  "Header_Get (X_MALT_KEY r) \<noteq> Getenv secret \<Longrightarrow>
     handleUpdatePost secret dberr r rows = (http_Error (runes ''Go away'') 401, rows)"
  by (simp add: handleUpdatePost_def)

lemma handlePublish_status:
  "Header_Get (X_MALT_KEY r) = Getenv secret \<Longrightarrow>
     status (fst (handlePublish tbl secret now dberr r rows)) \<in> {200, 400, 500}"
  by (simp add: handlePublish_def http_Error_def jsonResponse_def Let_def
      split: option.splits)

lemma handleDeletePost_status:
  "Header_Get (X_MALT_KEY r) = Getenv secret \<Longrightarrow>
     status (fst (handleDeletePost secret dberr r rows)) \<in> {200, 404, 500}"
  by (simp add: handleDeletePost_def http_Error_def jsonResponse_def Let_def
      split: option.splits prod.splits)

lemma handleUpdatePost_status:
  "Header_Get (X_MALT_KEY r) = Getenv secret \<Longrightarrow>
     status (fst (handleUpdatePost secret dberr r rows)) \<in> {200, 400, 404, 500}"
  by (simp add: handleUpdatePost_def http_Error_def jsonResponse_def Let_def
      split: option.splits prod.splits)

lemma handlePublish_key_irrelevant:
  assumes "Header_Get (X_MALT_KEY r) = Getenv secret"
  shows "handlePublish tbl secret now dberr r rows =
         handlePublish tbl (Some k) now dberr (r\<lparr>X_MALT_KEY := Some k\<rparr>) rows"
  using assms by (simp add: handlePublish_def Header_Get_def Getenv_def)

lemma handleDeletePost_key_irrelevant:
  assumes "Header_Get (X_MALT_KEY r) = Getenv secret"
  shows "handleDeletePost secret dberr r rows =
         handleDeletePost (Some k) dberr (r\<lparr>X_MALT_KEY := Some k\<rparr>) rows"
  using assms by (simp add: handleDeletePost_def Header_Get_def Getenv_def)

lemma handleUpdatePost_key_irrelevant:
  assumes "Header_Get (X_MALT_KEY r) = Getenv secret"
  shows "handleUpdatePost secret dberr r rows =
         handleUpdatePost (Some k) dberr (r\<lparr>X_MALT_KEY := Some k\<rparr>) rows"
  using assms by (simp add: handleUpdatePost_def Header_Get_def Getenv_def)

lemma handleUpdatePost_absent:
  assumes "Header_Get (X_MALT_KEY r) = Getenv secret" and "Body r = Some p"
    and "PathSlug r \<notin> set (map Slug rows)"
  shows "handleUpdatePost secret None r rows = (http_Error (runes ''Post not found'') 404, rows)"
  using assms by (simp add: handleUpdatePost_def sql_update_absent Let_def del: set_map)

lemma handleUpdatePost_present:
  assumes "Header_Get (X_MALT_KEY r) = Getenv secret" and "Body r = Some p"
    and "PathSlug r \<in> set (map Slug rows)"
  shows "handleUpdatePost secret None r rows =
           (jsonResponse (JsonMap [(''status'', runes ''updated''), (''slug'', PathSlug r)]),
            map (\<lambda>q. if Slug q = PathSlug r
                      then q\<lparr>Title := Title p, Description := Description p, Content := Content p\<rparr>
                      else q) rows)"
proof -
  from assms(3) have "length (filter (\<lambda>q. Slug q = PathSlug r) rows) \<noteq> 0"
    using rows_affected_zero[of "PathSlug r" rows] by simp
  with assms(1,2) show ?thesis
    by (simp add: handleUpdatePost_def sql_update_def Let_def)
qed

lemma handleUpdatePost_dberr:
  assumes "Header_Get (X_MALT_KEY r) = Getenv secret" and "Body r = Some p"
  shows "handleUpdatePost secret (Some e) r rows =
           (http_Error (runes ''Database error: '' @ e) 500, rows)"
  using assms by (simp add: handleUpdatePost_def Let_def)

lemma handleUpdatePost_ok:
  assumes "handleUpdatePost secret dberr r rows = (resp, rows')" and "status resp = 200"
  shows "\<exists>p. Body r = Some p \<and>
           rows' = map (\<lambda>q. if Slug q = PathSlug r
                      then q\<lparr>Title := Title p, Description := Description p, Content := Content p\<rparr>
                      else q) rows"
  using assms
  by (auto simp: handleUpdatePost_def http_Error_def jsonResponse_def sql_update_def Let_def
      split: if_splits option.splits)

section \<open>Claims on slug generation\<close>

text \<open>
  Normalizing the slug of the title \<^verbatim>\<open>a b\<close> once more does not return it: the
  hyphen that replaced the space is outside \<^verbatim>\<open>[a-z0-9 ]\<close> and is deleted.
\<close>

theorem SlugNormalizer_not_idempotent:
  "SlugNormalizer id (SlugNormalizer id (runes ''a b'')) \<noteq> SlugNormalizer id (runes ''a b'')"
  by (simp add: SlugNormalizer_runes ToLower_def unicode_ToLower_def reg_class_def runes_def)

text \<open>
  C1 (amended): for every title, applying the normalization to its own output returns
  that output with its hyphens deleted; the output comes back unchanged exactly when the
  lower-cased title holds no space.
\<close>

theorem SlugNormalizer_renormalized:
  "SlugNormalizer tbl (SlugNormalizer tbl title) =
     filter (\<lambda>r. r \<noteq> 45) (SlugNormalizer tbl title)
   \<and> (SlugNormalizer tbl (SlugNormalizer tbl title) = SlugNormalizer tbl title
        \<longleftrightarrow> 32 \<notin> set (ToLower tbl title))"
  using hyphen_in_slug[of tbl title] by (auto simp: SlugNormalizer_twice filter_id_conv)

text \<open>The title \<^verbatim>\<open>Go-1.22!\<close> has no space; its slug is a fixed point.\<close>

theorem SlugNormalizer_renormalized_witness:
  "32 \<notin> set (ToLower id (runes ''Go-1.22!''))
   \<and> SlugNormalizer id (SlugNormalizer id (runes ''Go-1.22!'')) = SlugNormalizer id (runes ''Go-1.22!'')
   \<and> SlugNormalizer id (runes ''Go-1.22!'') = runes ''go122''"
  using SlugNormalizer_renormalized[of id "runes ''Go-1.22!''"]
  by (simp add: SlugNormalizer_runes ToLower_def unicode_ToLower_def reg_class_def runes_def)

text \<open>
  A run of two spaces gives two hyphens, where the policy of the specification gives one.
\<close>

theorem SlugNormalizer_keeps_space_runs:
  "SlugNormalizer id (runes ''a  b'') = runes ''a--b''
   \<and> SlugNormalizer_spec id (runes ''a  b'') = runes ''a-b''"
  by (simp add: SlugNormalizer_runes SlugNormalizer_spec_def ToLower_def unicode_ToLower_def
      reg_class_def runes_def)

text \<open>
  C2 (amended): for every title, the slug normalizer lower-cases it, strips every rune
  outside \<^verbatim>\<open>[a-z0-9 ]\<close>, and then replaces each space by one hyphen, so that a run
  of n spaces yields n hyphens; when the stripped title has no two adjacent spaces this
  is the slug of the run-collapsing policy.
\<close>

theorem SlugNormalizer_policy:
  "SlugNormalizer tbl title =
     map (\<lambda>r. if r = 32 then 45 else r) (filter (\<lambda>r. \<not> reg_class r) (ToLower tbl title))
   \<and> (single_spaces (filter (\<lambda>r. \<not> reg_class r) (ToLower tbl title))
        \<longrightarrow> SlugNormalizer tbl title = SlugNormalizer_spec tbl title)"
  by (simp add: SlugNormalizer_runes SlugNormalizer_spec_def collapse_single_spaces runes_hyphen)

text \<open>The example of the specification.\<close>

theorem SlugNormalizer_policy_witness:
  "single_spaces (filter (\<lambda>r. \<not> reg_class r) (ToLower id (runes ''Hello, World! 2024'')))
   \<and> SlugNormalizer id (runes ''Hello, World! 2024'') = runes ''hello-world-2024''
   \<and> SlugNormalizer_spec id (runes ''Hello, World! 2024'') = runes ''hello-world-2024''"
  using SlugNormalizer_policy[of id "runes ''Hello, World! 2024''"]
  by (simp add: SlugNormalizer_runes ToLower_def unicode_ToLower_def reg_class_def runes_def)

text \<open>
  The title \<^verbatim>\<open>caf\<close> followed by U+00E9, a lower-case letter that lower-casing leaves
  as it is: the current variant strips it, the older one keeps it.
\<close>

theorem slug_variants_differ_on_letter:
  "single_spaces [99, 97, 102, 233]
   \<and> ToLower id [99, 97, 102, 233] = [99, 97, 102, 233]
   \<and> SlugNormalizer id [99, 97, 102, 233] = runes ''caf''
   \<and> SlugNormalizer_old id [99, 97, 102, 233] = [99, 97, 102, 233]"
  by (simp add: SlugNormalizer_runes SlugNormalizer_old_runes ToLower_def unicode_ToLower_def
        reg_class_def runes_def)

text \<open>
  C9 (amended): the two variants of slug generation differ on a title with punctuation
  (\<^verbatim>\<open>Hello, World!\<close>), and agree on every title made only of the ASCII lower-case
  letters a-z, the digits 0-9 and single spaces.
\<close>

theorem slug_variants:
  "44 \<in> set (runes ''Hello, World!'')
   \<and> SlugNormalizer tbl (runes ''Hello, World!'') \<noteq> SlugNormalizer_old tbl (runes ''Hello, World!'')
   \<and> (\<forall>title. (\<forall>r \<in> set title. (97 \<le> r \<and> r \<le> 122) \<or> (48 \<le> r \<and> r \<le> 57) \<or> r = 32)
          \<and> single_spaces title
        \<longrightarrow> SlugNormalizer tbl title = SlugNormalizer_old tbl title)"
  using variants_agree_on_plain_titles[of _ tbl]
  by (simp add: SlugNormalizer_runes SlugNormalizer_old_runes ToLower_def unicode_ToLower_def
        reg_class_def runes_def)

text \<open>The two variants on \<^verbatim>\<open>malt 12 years\<close> and on \<^verbatim>\<open>Hello, World!\<close>.\<close>

theorem slug_variants_witness:
  "list_all (\<lambda>r. (97 \<le> r \<and> r \<le> 122) \<or> (48 \<le> r \<and> r \<le> 57) \<or> r = 32) (runes ''malt 12 years'')
   \<and> single_spaces (runes ''malt 12 years'')
   \<and> SlugNormalizer id (runes ''malt 12 years'') = runes ''malt-12-years''
   \<and> SlugNormalizer_old id (runes ''malt 12 years'') = runes ''malt-12-years''
   \<and> SlugNormalizer id (runes ''Hello, World!'') = runes ''hello-world''
   \<and> SlugNormalizer_old id (runes ''Hello, World!'') = runes ''hello,-world!''"
  using slug_variants[of id]
  by (simp add: SlugNormalizer_runes SlugNormalizer_old_runes ToLower_def unicode_ToLower_def
        reg_class_def runes_def)

section \<open>Claims on the handlers\<close>



text \<open>
  C4: \<^verbatim>\<open>handleGetPost\<close> answers a failing query for the stored slug \<^verbatim>\<open>hello\<close>
  with the response it gives for a slug that no row has: 404 and
  \<^verbatim>\<open>Post not found\<close>, where \<^verbatim>\<open>handleListPosts\<close> answers a failing query with 500.
  When the query succeeds, the post is returned.
\<close>

theorem handleGetPost_query_failure:
  "handleGetPost driver_LA (Some (runes ''database is locked''))
     \<lparr>X_MALT_KEY = None, PathSlug = runes ''hello'', Body = None\<rparr>
     [\<lparr>Slug = runes ''hello'', Title = runes ''Hello'', Description = runes ''D1'',
       Content = runes ''C1'', PublishedAt = 1730624460\<rparr>]
   = http_Error (runes ''Post not found'') 404
   \<and> handleGetPost driver_LA None
     \<lparr>X_MALT_KEY = None, PathSlug = runes ''absent'', Body = None\<rparr>
     [\<lparr>Slug = runes ''hello'', Title = runes ''Hello'', Description = runes ''D1'',
       Content = runes ''C1'', PublishedAt = 1730624460\<rparr>]
   = http_Error (runes ''Post not found'') 404
   \<and> handleListPosts driver_LA (Some (runes ''database is locked''))
     [\<lparr>Slug = runes ''hello'', Title = runes ''Hello'', Description = runes ''D1'',
       Content = runes ''C1'', PublishedAt = 1730624460\<rparr>]
   = http_Error (runes ''Database error'') 500
   \<and> handleGetPost driver_LA None
     \<lparr>X_MALT_KEY = None, PathSlug = runes ''hello'', Body = None\<rparr>
     [\<lparr>Slug = runes ''hello'', Title = runes ''Hello'', Description = runes ''D1'',
       Content = runes ''C1'', PublishedAt = 1730624460\<rparr>]
   = \<lparr>status = 200, body = JsonPost
        [(''slug'', JString (runes ''hello'')), (''title'', JString (runes ''Hello'')),
         (''description'', JString (runes ''D1'')), (''content'', JString (runes ''C1'')),
         (''published_at'', JTime 1730624460)]\<rparr>"
  by (simp add: handleGetPost_def handleListPosts_def sql_select_slug_def published_at_def
      json_Post_def jsonResponse_def driver_LA_def formatTime_LA_def parseTime_LA_def runes_def)

text \<open>
  C5: a publish, delete or update request whose \<^verbatim>\<open>X-MALT-KEY\<close> differs from the
  configured secret is answered with 401 and leaves the table as it is.
\<close>

theorem unauthorized_no_change:
  assumes "Header_Get (X_MALT_KEY r) \<noteq> Getenv secret"
  shows "handlePublish tbl secret now dberr r rows = (http_Error (runes ''Go away'') 401, rows)
       \<and> handleDeletePost secret dberr r rows = (http_Error (runes ''Go away'') 401, rows)
       \<and> handleUpdatePost secret dberr r rows = (http_Error (runes ''Go away'') 401, rows)"
  using assms
  by (simp add: handlePublish_unauthorized handleDeletePost_unauthorized
      handleUpdatePost_unauthorized)

text \<open>A request with the key \<^verbatim>\<open>guess\<close> against the secret \<^verbatim>\<open>k\<close>.\<close>

theorem unauthorized_no_change_witness:
  "Header_Get (Some (runes ''guess'')) \<noteq> Getenv (Some (runes ''k''))
   \<and> handleDeletePost (Some (runes ''k'')) None
        \<lparr>X_MALT_KEY = Some (runes ''guess''), PathSlug = runes ''hello'', Body = None\<rparr>
        [\<lparr>Slug = runes ''hello'', Title = runes ''Hello'', Description = runes ''D1'',
          Content = runes ''C1'', PublishedAt = 100\<rparr>]
      = (\<lparr>status = 401, body = Text (runes ''Go away'')\<rparr>,
         [\<lparr>Slug = runes ''hello'', Title = runes ''Hello'', Description = runes ''D1'',
           Content = runes ''C1'', PublishedAt = 100\<rparr>])"
  using unauthorized_no_change[where secret = "Some (runes ''k'')"
      and r = "\<lparr>X_MALT_KEY = Some (runes ''guess''), PathSlug = runes ''hello'', Body = None\<rparr>"
      and dberr = None
      and rows = "[\<lparr>Slug = runes ''hello'', Title = runes ''Hello'', Description = runes ''D1'',
          Content = runes ''C1'', PublishedAt = 100\<rparr>]"]
  by (simp add: Header_Get_def Getenv_def http_Error_def runes_def)

text \<open>
  C6: for an authorized request with a decodable body, \<^verbatim>\<open>handleUpdatePost\<close> answers
  404 and leaves the table as it is (no row inserted) when no row has the slug of the
  path; it answers 200 and sets title, description and content of the rows of that slug
  when there is one; and it answers 500, not 404, when the statement fails.
\<close>

theorem update_only_existing:
  assumes "Header_Get (X_MALT_KEY r) = Getenv secret" and "Body r = Some p"
  shows "(PathSlug r \<notin> set (map Slug rows) \<longrightarrow>
            handleUpdatePost secret None r rows
              = (http_Error (runes ''Post not found'') 404, rows))
       \<and> (PathSlug r \<in> set (map Slug rows) \<longrightarrow>
            handleUpdatePost secret None r rows
              = (jsonResponse (JsonMap [(''status'', runes ''updated''), (''slug'', PathSlug r)]),
                 map (\<lambda>q. if Slug q = PathSlug r
                           then q\<lparr>Title := Title p, Description := Description p,
                                  Content := Content p\<rparr>
                           else q) rows))
       \<and> handleUpdatePost secret (Some e) r rows
              = (http_Error (runes ''Database error: '' @ e) 500, rows)
       \<and> status (http_Error (runes ''Post not found'') 404)
              \<noteq> status (http_Error (runes ''Database error: '' @ e) 500)"
  using assms
  by (simp add: handleUpdatePost_absent handleUpdatePost_present handleUpdatePost_dberr
      http_Error_def del: set_map)

text \<open>An update of the absent slug \<^verbatim>\<open>absent\<close> and one of the stored slug \<^verbatim>\<open>hello\<close>.\<close>

theorem update_only_existing_witness:
  "handleUpdatePost (Some (runes ''k'')) None
     \<lparr>X_MALT_KEY = Some (runes ''k''), PathSlug = runes ''absent'',
       Body = Some \<lparr>Slug = [], Title = runes ''T2'', Description = runes ''D2'',
                    Content = runes ''C2'', PublishedAt = 0\<rparr>\<rparr>
     [\<lparr>Slug = runes ''hello'', Title = runes ''Hello'', Description = runes ''D1'',
       Content = runes ''C1'', PublishedAt = 100\<rparr>]
   = (\<lparr>status = 404, body = Text (runes ''Post not found'')\<rparr>,
      [\<lparr>Slug = runes ''hello'', Title = runes ''Hello'', Description = runes ''D1'',
        Content = runes ''C1'', PublishedAt = 100\<rparr>])
   \<and> handleUpdatePost (Some (runes ''k'')) None
     \<lparr>X_MALT_KEY = Some (runes ''k''), PathSlug = runes ''hello'',
       Body = Some \<lparr>Slug = [], Title = runes ''T2'', Description = runes ''D2'',
                    Content = runes ''C2'', PublishedAt = 0\<rparr>\<rparr>
     [\<lparr>Slug = runes ''hello'', Title = runes ''Hello'', Description = runes ''D1'',
       Content = runes ''C1'', PublishedAt = 100\<rparr>]
   = (\<lparr>status = 200, body = JsonMap [(''status'', runes ''updated''), (''slug'', runes ''hello'')]\<rparr>,
      [\<lparr>Slug = runes ''hello'', Title = runes ''T2'', Description = runes ''D2'',
        Content = runes ''C2'', PublishedAt = 100\<rparr>])"
  using update_only_existing[where secret = "Some (runes ''k'')"
      and r = "\<lparr>X_MALT_KEY = Some (runes ''k''), PathSlug = runes ''absent'',
       Body = Some \<lparr>Slug = [], Title = runes ''T2'', Description = runes ''D2'',
                    Content = runes ''C2'', PublishedAt = 0\<rparr>\<rparr>"
      and p = "\<lparr>Slug = [], Title = runes ''T2'', Description = runes ''D2'',
                    Content = runes ''C2'', PublishedAt = 0\<rparr>"
      and rows = "[\<lparr>Slug = runes ''hello'', Title = runes ''Hello'', Description = runes ''D1'',
       Content = runes ''C1'', PublishedAt = 100\<rparr>]"]
    update_only_existing[where secret = "Some (runes ''k'')"
      and r = "\<lparr>X_MALT_KEY = Some (runes ''k''), PathSlug = runes ''hello'',
       Body = Some \<lparr>Slug = [], Title = runes ''T2'', Description = runes ''D2'',
                    Content = runes ''C2'', PublishedAt = 0\<rparr>\<rparr>"
      and p = "\<lparr>Slug = [], Title = runes ''T2'', Description = runes ''D2'',
                    Content = runes ''C2'', PublishedAt = 0\<rparr>"
      and rows = "[\<lparr>Slug = runes ''hello'', Title = runes ''Hello'', Description = runes ''D1'',
       Content = runes ''C1'', PublishedAt = 100\<rparr>]"]
  by (simp add: Header_Get_def Getenv_def http_Error_def jsonResponse_def runes_def)

text \<open>
  C7: an update that is answered with 200 leaves the number of rows, the slug and
  \<^verbatim>\<open>published_at\<close> of every row, and every row of another slug, as they were: it
  changes at most title, description and content of the rows of the slug of the path.
\<close>

theorem update_frame:
  assumes "handleUpdatePost secret dberr r rows = (resp, rows')" and "status resp = 200"
  shows "length rows' = length rows
       \<and> (\<forall>i < length rows.
             Slug (rows' ! i) = Slug (rows ! i)
           \<and> PublishedAt (rows' ! i) = PublishedAt (rows ! i)
           \<and> (Slug (rows ! i) \<noteq> PathSlug r \<longrightarrow> rows' ! i = rows ! i))"
proof -
  from handleUpdatePost_ok[OF assms] obtain p where
    "Body r = Some p" and
    "rows' = map (\<lambda>q. if Slug q = PathSlug r
                      then q\<lparr>Title := Title p, Description := Description p, Content := Content p\<rparr>
                      else q) rows"
    by (elim exE conjE)
  then show ?thesis by simp
qed

text \<open>An update of \<^verbatim>\<open>hello\<close> in a table of two rows.\<close>

theorem update_frame_witness:
  "status (fst (handleUpdatePost (Some (runes ''k'')) None
     \<lparr>X_MALT_KEY = Some (runes ''k''), PathSlug = runes ''hello'',
       Body = Some \<lparr>Slug = runes ''other'', Title = runes ''T2'', Description = runes ''D2'',
                    Content = runes ''C2'', PublishedAt = 7\<rparr>\<rparr>
     [\<lparr>Slug = runes ''hello'', Title = runes ''Hello'', Description = runes ''D1'',
       Content = runes ''C1'', PublishedAt = 100\<rparr>,
      \<lparr>Slug = runes ''malt'', Title = runes ''Malt'', Description = runes ''D3'',
       Content = runes ''C3'', PublishedAt = 150\<rparr>])) = 200
   \<and> map Slug (snd (handleUpdatePost (Some (runes ''k'')) None
     \<lparr>X_MALT_KEY = Some (runes ''k''), PathSlug = runes ''hello'',
       Body = Some \<lparr>Slug = runes ''other'', Title = runes ''T2'', Description = runes ''D2'',
                    Content = runes ''C2'', PublishedAt = 7\<rparr>\<rparr>
     [\<lparr>Slug = runes ''hello'', Title = runes ''Hello'', Description = runes ''D1'',
       Content = runes ''C1'', PublishedAt = 100\<rparr>,
      \<lparr>Slug = runes ''malt'', Title = runes ''Malt'', Description = runes ''D3'',
       Content = runes ''C3'', PublishedAt = 150\<rparr>])) = [runes ''hello'', runes ''malt'']
   \<and> length (snd (handleUpdatePost (Some (runes ''k'')) None
     \<lparr>X_MALT_KEY = Some (runes ''k''), PathSlug = runes ''hello'',
       Body = Some \<lparr>Slug = runes ''other'', Title = runes ''T2'', Description = runes ''D2'',
                    Content = runes ''C2'', PublishedAt = 7\<rparr>\<rparr>
     [\<lparr>Slug = runes ''hello'', Title = runes ''Hello'', Description = runes ''D1'',
       Content = runes ''C1'', PublishedAt = 100\<rparr>,
      \<lparr>Slug = runes ''malt'', Title = runes ''Malt'', Description = runes ''D3'',
       Content = runes ''C3'', PublishedAt = 150\<rparr>])) = 2"
  using update_frame[where secret = "Some (runes ''k'')" and dberr = None
      and r = "\<lparr>X_MALT_KEY = Some (runes ''k''), PathSlug = runes ''hello'',
       Body = Some \<lparr>Slug = runes ''other'', Title = runes ''T2'', Description = runes ''D2'',
                    Content = runes ''C2'', PublishedAt = 7\<rparr>\<rparr>"
      and rows = "[\<lparr>Slug = runes ''hello'', Title = runes ''Hello'', Description = runes ''D1'',
       Content = runes ''C1'', PublishedAt = 100\<rparr>,
      \<lparr>Slug = runes ''malt'', Title = runes ''Malt'', Description = runes ''D3'',
       Content = runes ''C3'', PublishedAt = 150\<rparr>]"
      and resp = "jsonResponse (JsonMap [(''status'', runes ''updated''), (''slug'', runes ''hello'')])"
      and rows' = "[\<lparr>Slug = runes ''hello'', Title = runes ''T2'', Description = runes ''D2'',
       Content = runes ''C2'', PublishedAt = 100\<rparr>,
      \<lparr>Slug = runes ''malt'', Title = runes ''Malt'', Description = runes ''D3'',
       Content = runes ''C3'', PublishedAt = 150\<rparr>]"]
  by (simp add: handleUpdatePost_def sql_update_def Header_Get_def Getenv_def jsonResponse_def
      Let_def runes_def)




text \<open>
  C10: when \<^verbatim>\<open>MALT_SECRET\<close> is unset or empty, a publish, delete or update request
  that omits \<^verbatim>\<open>X-MALT-KEY\<close> or sends it empty is not answered with 401: it is
  processed as a request that carries the key of a configured secret.
\<close>

theorem empty_secret_admits_missing_key:
  assumes "secret = None \<or> secret = Some []" and "X_MALT_KEY r = None \<or> X_MALT_KEY r = Some []"
  shows "status (fst (handlePublish tbl secret now dberr r rows)) \<noteq> 401
       \<and> status (fst (handleDeletePost secret dberr r rows)) \<noteq> 401
       \<and> status (fst (handleUpdatePost secret dberr r rows)) \<noteq> 401
       \<and> handlePublish tbl secret now dberr r rows
           = handlePublish tbl (Some k) now dberr (r\<lparr>X_MALT_KEY := Some k\<rparr>) rows
       \<and> handleDeletePost secret dberr r rows
           = handleDeletePost (Some k) dberr (r\<lparr>X_MALT_KEY := Some k\<rparr>) rows
       \<and> handleUpdatePost secret dberr r rows
           = handleUpdatePost (Some k) dberr (r\<lparr>X_MALT_KEY := Some k\<rparr>) rows"
proof -
  from assms have auth: "Header_Get (X_MALT_KEY r) = Getenv secret"
    by (auto simp: Header_Get_def Getenv_def)
  from handlePublish_status[OF auth, of tbl now dberr rows]
    handleDeletePost_status[OF auth, of dberr rows]
    handleUpdatePost_status[OF auth, of dberr rows]
    handlePublish_key_irrelevant[OF auth, of tbl now dberr rows k]
    handleDeletePost_key_irrelevant[OF auth, of dberr rows k]
    handleUpdatePost_key_irrelevant[OF auth, of dberr rows k]
  show ?thesis by auto
qed

text \<open>With no secret configured, a delete request without the header deletes the row.\<close>

theorem empty_secret_admits_missing_key_witness:
  "handleDeletePost None None
     \<lparr>X_MALT_KEY = None, PathSlug = runes ''hello'', Body = None\<rparr>
     [\<lparr>Slug = runes ''hello'', Title = runes ''Hello'', Description = runes ''D1'',
       Content = runes ''C1'', PublishedAt = 100\<rparr>]
   = (\<lparr>status = 200, body = JsonMap [(''status'', runes ''deleted''), (''slug'', runes ''hello'')]\<rparr>,
      [])
   \<and> handleDeletePost (Some (runes ''k'')) None
     \<lparr>X_MALT_KEY = Some (runes ''k''), PathSlug = runes ''hello'', Body = None\<rparr>
     [\<lparr>Slug = runes ''hello'', Title = runes ''Hello'', Description = runes ''D1'',
       Content = runes ''C1'', PublishedAt = 100\<rparr>]
   = (\<lparr>status = 200, body = JsonMap [(''status'', runes ''deleted''), (''slug'', runes ''hello'')]\<rparr>,
      [])"
  using empty_secret_admits_missing_key[where secret = None and dberr = None
      and k = "runes ''k''"
      and r = "\<lparr>X_MALT_KEY = None, PathSlug = runes ''hello'', Body = None\<rparr>"
      and rows = "[\<lparr>Slug = runes ''hello'', Title = runes ''Hello'', Description = runes ''D1'',
       Content = runes ''C1'', PublishedAt = 100\<rparr>]"]
  by (simp add: handleDeletePost_def sql_delete_def Header_Get_def Getenv_def jsonResponse_def
      Let_def runes_def)

end
